theory Spec2Isabelle
  imports Complex_Main "HOL-Library.Sublist"
begin

section \<open>Python values used by \<^verbatim>\<open>samples/scrape_person_contacts.py\<close>\<close>

text \<open>
  A Python \<^verbatim>\<open>str\<close> is a sequence of Unicode code points, so it is modelled as a list of
  natural numbers: slicing (\<^verbatim>\<open>s[:100]\<close>) and \<^verbatim>\<open>len\<close> count code points, as in the source.
  \<open>lit\<close> turns an ASCII literal into that representation.
\<close>

type_synonym pystr = "nat list"

definition lit :: "string \<Rightarrow> pystr" where
  "lit s = map of_char s"

text \<open>
  \<^verbatim>\<open>str.strip()\<close> removes leading and trailing code points for which \<^verbatim>\<open>str.isspace\<close>
  holds: U+0009..U+000D, U+001C..U+0020, U+0085, U+00A0, U+1680, U+2000..U+200A, U+2028,
  U+2029, U+202F, U+205F and U+3000.
\<close>

definition is_space :: "nat \<Rightarrow> bool" where
  "is_space c =
     ((9 \<le> c \<and> c \<le> 13) \<or> (28 \<le> c \<and> c \<le> 32) \<or> c = 133 \<or> c = 160 \<or> c = 5760 \<or>
      (8192 \<le> c \<and> c \<le> 8202) \<or> c = 8232 \<or> c = 8233 \<or> c = 8239 \<or> c = 8287 \<or> c = 12288)"

definition strip :: "pystr \<Rightarrow> pystr" where
  "strip s = rev (dropWhile is_space (rev (dropWhile is_space s)))"

text \<open>
  \<^verbatim>\<open>str.lower()\<close>, written out for the ASCII letters. No code point outside ASCII
  lower-cases to \<^verbatim>\<open>y\<close>, \<^verbatim>\<open>e\<close> or \<^verbatim>\<open>s\<close>, so the comparison with \<^verbatim>\<open>"yes"\<close> below is decided
  exactly as Python decides it.
\<close>

definition lower_cp :: "nat \<Rightarrow> nat" where
  "lower_cp c = (if 65 \<le> c \<and> c \<le> 90 then c + 32 else c)"

definition str_lower :: "pystr \<Rightarrow> pystr" where
  "str_lower s = map lower_cp s"

text \<open>Decimal formatting of integers, as \<^verbatim>\<open>str(n)\<close> and \<^verbatim>\<open>f"{n}"\<close> do.\<close>

fun str_of_nat :: "nat \<Rightarrow> pystr" where
  "str_of_nat n = (if n < 10 then [48 + n] else str_of_nat (n div 10) @ [48 + n mod 10])"

declare str_of_nat.simps [simp del]

definition str_of_int :: "int \<Rightarrow> pystr" where
  "str_of_int i = (if i < 0 then 45 # str_of_nat (nat (- i)) else str_of_nat (nat i))"

text \<open>
  The value of a spreadsheet cell as \<^verbatim>\<open>row.get\<close> hands it out: \<^verbatim>\<open>None\<close> (the default of
  \<^verbatim>\<open>get\<close> for a column the frame does not have), the missing-value marker \<^verbatim>\<open>nan\<close>, a
  string, an integer or a boolean. Floating-point cells other than \<^verbatim>\<open>nan\<close> are left out.
\<close>

datatype cell = PyNone | NaN | Str pystr | Num int | Bool bool

fun py_str :: "cell \<Rightarrow> pystr" where
  "py_str PyNone = lit ''None''"
| "py_str NaN = lit ''nan''"
| "py_str (Str s) = s"
| "py_str (Num i) = str_of_int i"
| "py_str (Bool b) = (if b then lit ''True'' else lit ''False'')"

text \<open>\<^verbatim>\<open>bool(x)\<close>: what \<^verbatim>\<open>not x\<close> negates. \<^verbatim>\<open>nan\<close> is a non-zero float, hence true.\<close>

fun truthy :: "cell \<Rightarrow> bool" where
  "truthy PyNone = False"
| "truthy NaN = True"
| "truthy (Str s) = (s \<noteq> [])"
| "truthy (Num i) = (i \<noteq> 0)"
| "truthy (Bool b) = b"

text \<open>\<^verbatim>\<open>pd.isna(x)\<close> on a scalar.\<close>

fun isna :: "cell \<Rightarrow> bool" where
  "isna PyNone = True"
| "isna NaN = True"
| "isna (Str s) = False"
| "isna (Num i) = False"
| "isna (Bool b) = False"

definition fillna :: "pystr \<Rightarrow> cell \<Rightarrow> cell" where
  "fillna v c = (if isna c then Str v else c)"

text \<open>
  A raised error, as far as the script looks at it: \<^verbatim>\<open>type(e).__name__\<close>, \<^verbatim>\<open>str(e)\<close>, and
  whether it is an instance of \<^verbatim>\<open>Exception\<close>. The three handlers of the script are
  \<^verbatim>\<open>except Exception\<close>: they do not catch an error that is a \<^verbatim>\<open>BaseException\<close> only, such
  as \<^verbatim>\<open>asyncio.CancelledError\<close> or \<^verbatim>\<open>KeyboardInterrupt\<close>.
\<close>

record exn =
  exn_type :: pystr
  exn_msg :: pystr
  is_exception :: bool

section \<open>The data frame and the inclusion filter\<close>

text \<open>
  A frame has column labels and rows in order, each row with its index label (the
  default \<^verbatim>\<open>RangeIndex\<close> of \<^verbatim>\<open>read_excel\<close>: the position of the row in the sheet, kept by
  boolean-mask selection). A row is read only at the labels of the frame.
\<close>

type_synonym row = "pystr \<Rightarrow> cell"

record frame =
  columns :: "pystr list"
  rows :: "(nat \<times> row) list"

definition row_get :: "pystr list \<Rightarrow> row \<Rightarrow> pystr \<Rightarrow> cell" where
  "row_get cols r k = (if k \<in> set cols then r k else PyNone)"

text \<open>
  One entry of the mask
  \<^verbatim>\<open>df["Conclusion"].fillna("").astype(str).str.lower() == "yes"\<close>.
\<close>

definition conclusion_is_yes :: "cell \<Rightarrow> bool" where
  "conclusion_is_yes c = (str_lower (py_str (fillna [] c)) = lit ''yes'')"

text \<open>
  \<^verbatim>\<open>candidates = df[mask].copy()\<close>; \<^verbatim>\<open>df["Conclusion"]\<close> raises \<^verbatim>\<open>KeyError\<close> when the sheet
  has no such column.
\<close>

definition key_error :: "pystr \<Rightarrow> exn" where
  "key_error k = \<lparr>exn_type = lit ''KeyError'', exn_msg = 39 # k @ [39], is_exception = True\<rparr>"

definition select_candidates :: "frame \<Rightarrow> exn + frame" where
  "select_candidates df =
     (if lit ''Conclusion'' \<in> set (columns df)
      then Inr (df\<lparr>rows := filter (\<lambda>(index, r). conclusion_is_yes (r (lit ''Conclusion''))) (rows df)\<rparr>)
      else Inl (key_error (lit ''Conclusion'')))"

text \<open>
  The two statements of the \<^verbatim>\<open>try\<close> block that can raise: \<^verbatim>\<open>pd.read_excel\<close>, whose
  outcome is an input of the model, and the selection.
\<close>

definition load_candidates :: "exn + frame \<Rightarrow> exn + frame" where
  "load_candidates excel = (case excel of Inl e \<Rightarrow> Inl e | Inr df \<Rightarrow> select_candidates df)"

section \<open>Collaborators and observable events\<close>

text \<open>
  \<^verbatim>\<open>Person\<close>, \<^verbatim>\<open>PersonScraper\<close> and \<^verbatim>\<open>BrowserManager\<close> are imported by the script. The profile
  is modelled by the attributes the script reads; an attribute may be \<^verbatim>\<open>None\<close>.
\<close>

record experience =
  position_title :: "pystr option"
  institution_name :: "pystr option"

record education =
  edu_institution_name :: "pystr option"

record person =
  name :: "pystr option"
  location :: "pystr option"
  about :: "pystr option"
  experiences :: "experience list"
  educations :: "education list"

text \<open>
  What a run does to the outside, in order: printed lines, the browser being acquired
  and released by \<^verbatim>\<open>async with\<close>, calls of the collaborators, and the two kinds of
  \<^verbatim>\<open>asyncio.sleep\<close>: a fixed number of seconds, or \<^verbatim>\<open>random.uniform(a, b)\<close> seconds.
\<close>

datatype event =
    Print pystr
  | Browser_open
  | Browser_close
  | Load_session pystr
  | Scrape pystr
  | Sleep nat
  | Sleep_uniform real real
  | Screenshot pystr

text \<open>
  The collaborators act on a world \<open>'w\<close> the script does not see into. A call that may
  raise returns the exception it raised, if any.
\<close>

record 'w collab =
  start_browser :: "'w \<Rightarrow> exn option \<times> 'w"
  close_browser :: "'w \<Rightarrow> 'w"
  load_session :: "pystr \<Rightarrow> 'w \<Rightarrow> exn option \<times> 'w"
  scrape :: "pystr \<Rightarrow> 'w \<Rightarrow> (exn + person) \<times> 'w"
  page_url :: "'w \<Rightarrow> pystr"
  screenshot :: "pystr \<Rightarrow> 'w \<Rightarrow> exn option \<times> 'w"

section \<open>The script\<close>

definition fmt :: "pystr option \<Rightarrow> pystr" where
  "fmt v = (case v of None \<Rightarrow> lit ''None'' | Some s \<Rightarrow> s)"

definition dashes :: pystr where
  "dashes = replicate 40 45"

text \<open>\<^verbatim>\<open>person.about[:100] if person.about else 'N/A'\<close>\<close>

definition about_text :: "person \<Rightarrow> pystr" where
  "about_text p =
     (case about p of
        None \<Rightarrow> lit ''N/A''
      | Some a \<Rightarrow> if a \<noteq> [] then take 100 a else lit ''N/A'')"

text \<open>The lines printed for a scraped profile (lines 89 to 103 of the script).\<close>

definition report :: "person \<Rightarrow> event list" where
  "report p =
     [Print dashes,
      Print (lit ''Person: '' @ fmt (name p)),
      Print (lit ''Location: '' @ fmt (location p) @ lit '' ''),
      Print (lit ''About: '' @ about_text p @ lit ''...''),
      Print (lit ''Work Experience ('' @ str_of_nat (length (experiences p)) @ lit '' positions):'')]
     @ map (\<lambda>exp. Print (lit ''  - '' @ fmt (position_title exp) @ lit '' at '' @ fmt (institution_name exp)))
         (take 2 (experiences p))
     @ [Print (lit ''Education ('' @ str_of_nat (length (educations p)) @ lit '' schools):'')]
     @ map (\<lambda>edu. Print (lit ''  - '' @ fmt (edu_institution_name edu))) (take 2 (educations p))
     @ [Print dashes]"

text \<open>The lines printed by the \<^verbatim>\<open>except\<close> handler before the screenshot is taken.\<close>

definition failure_lines :: "cell \<Rightarrow> exn \<Rightarrow> pystr \<Rightarrow> event list" where
  "failure_lines nm e url =
     [Print (10060 # lit '' Failed to scrape '' @ py_str nm),
      Print (128308 # lit '' Error type: '' @ exn_type e),
      Print (128308 # lit '' Error: '' @ exn_msg e),
      Print (127760 # lit '' Current URL in browser: '' @ url)]"

definition error_png :: "nat \<Rightarrow> pystr" where
  "error_png index = lit ''error_'' @ str_of_nat index @ lit ''.png''"

text \<open>Lines 77 and 78, and the call of the scraper that follows them.\<close>

definition started :: "nat \<Rightarrow> cell \<Rightarrow> pystr \<Rightarrow> event list" where
  "started index nm url =
     [Print (10 # lit ''['' @ str_of_nat (index + 1) @ lit ''] Processing: '' @ py_str nm),
      Print (128640 # lit '' Scraping: '' @ url),
      Scrape url]"

text \<open>
  The body of the \<^verbatim>\<open>for\<close> loop for one row. The result is the error that leaves the
  body, if any, the events of the body and the world after it. The handler of line 108
  is entered for an \<^verbatim>\<open>Exception\<close> only; any other error of the scrape leaves the body as
  it is, and so does any error of the screenshot inside the handler.
\<close>

definition process_row ::
  "'w collab \<Rightarrow> pystr list \<Rightarrow> nat \<times> row \<Rightarrow> 'w \<Rightarrow> exn option \<times> event list \<times> 'w" where
  "process_row C cols ir w =
     (case ir of (index, r) \<Rightarrow>
        let nm = row_get cols r (lit ''Nama Mahasiswa'');
            linkedin_url = row_get cols r (lit ''LinkedIn'')
        in if \<not> truthy linkedin_url \<or> isna linkedin_url
           then (None, [Print (lit ''Skipping '' @ py_str nm @ lit '': No LinkedIn URL found'')], w)
           else
             let url = strip (py_str linkedin_url)
             in (case scrape C url w of
                  (Inr p, w1) \<Rightarrow>
                    (None,
                     started index nm url
                     @ [Sleep 15, Print (10003 # lit '' Success! Current URL: '' @ page_url C w1)]
                     @ report p
                     @ [Sleep_uniform 2.2 4.313],
                     w1)
                | (Inl e, w1) \<Rightarrow>
                    if \<not> is_exception e then (Some e, started index nm url, w1)
                    else
                      let tried =
                            started index nm url @ failure_lines nm e (page_url C w1)
                            @ [Screenshot (error_png index)]
                      in (case screenshot C (error_png index) w1 of
                            (Some e2, w2) \<Rightarrow> (Some e2, tried, w2)
                          | (None, w2) \<Rightarrow>
                              (None,
                               tried @ [Print (128248 # lit '' Screenshot saved as '' @ error_png index)],
                               w2))))"

text \<open>\<^verbatim>\<open>for index, row in candidates.iterrows()\<close>: an exception leaving the body ends the loop.\<close>

fun run_rows ::
  "'w collab \<Rightarrow> pystr list \<Rightarrow> (nat \<times> row) list \<Rightarrow> 'w \<Rightarrow> exn option \<times> event list \<times> 'w" where
  "run_rows C cols [] w = (None, [], w)"
| "run_rows C cols (ir # rest) w =
     (case process_row C cols ir w of
        (Some e, ev, w1) \<Rightarrow> (Some e, ev, w1)
      | (None, ev, w1) \<Rightarrow>
          (case run_rows C cols rest w1 of (res, ev2, w2) \<Rightarrow> (res, ev @ ev2, w2)))"

text \<open>
  The block under \<^verbatim>\<open>async with BrowserManager(...) as browser\<close> (lines 56 to 118). An
  error of \<^verbatim>\<open>load_session\<close> that is not an \<^verbatim>\<open>Exception\<close> passes the handler of line 60 and
  leaves the block.
\<close>

text \<open>What a call raised passes an \<^verbatim>\<open>except Exception\<close> handler.\<close>

definition uncaught :: "exn option \<Rightarrow> bool" where
  "uncaught raised = (case raised of None \<Rightarrow> False | Some e \<Rightarrow> \<not> is_exception e)"

definition session_file :: pystr where
  "session_file = lit ''linkedin_session.json''"

definition session_warning :: "exn \<Rightarrow> pystr" where
  "session_warning e =
     lit ''Warning: Could not load session ('' @ exn_msg e
     @ lit ''). You might need to login manually.''"

text \<open>The line printed after \<^verbatim>\<open>browser.load_session\<close>: by the \<^verbatim>\<open>try\<close> or by its handler.\<close>

definition session_notice :: "exn option \<Rightarrow> event" where
  "session_notice loaded =
     (case loaded of
        None \<Rightarrow> Print (10003 # lit '' Session loaded'')
      | Some e \<Rightarrow> Print (session_warning e))"

definition browser_block ::
  "'w collab \<Rightarrow> frame \<Rightarrow> 'w \<Rightarrow> exn option \<times> event list \<times> 'w" where
  "browser_block C candidates w =
     (case load_session C session_file w of
        (loaded, w1) \<Rightarrow>
          if uncaught loaded then (loaded, [Load_session session_file], w1)
          else
            (case run_rows C (columns candidates) (rows candidates) w1 of
               (res, ev, w2) \<Rightarrow>
                 (res, Load_session session_file # session_notice loaded # ev, w2)))"

definition reading_line :: "pystr \<Rightarrow> event" where
  "reading_line excel_path = Print (lit ''Reading data from: '' @ excel_path)"

definition found_line :: "nat \<Rightarrow> event" where
  "found_line n =
     Print (lit ''Found '' @ str_of_nat n @ lit '' candidates to scrape from 2013 sheet.'')"

definition done_line :: event where
  "done_line = Print (10 # 10003 # lit '' Batch processing done!'')"

text \<open>
  \<^verbatim>\<open>main\<close>. Its inputs besides the collaborators: the path of the workbook, whether it
  exists, and what \<^verbatim>\<open>pd.read_excel\<close> returns or raises for it. \<^verbatim>\<open>async with\<close> calls the
  manager's exit on every way out of its block, then lets an exception go on; the last
  line is printed only when the block ended without one. The handler of line 39 reports
  an \<^verbatim>\<open>Exception\<close> of the \<^verbatim>\<open>try\<close> block and returns; any other error leaves \<^verbatim>\<open>main\<close>.
\<close>

definition main ::
  "'w collab \<Rightarrow> pystr \<Rightarrow> bool \<Rightarrow> exn + frame \<Rightarrow> 'w \<Rightarrow> exn option \<times> event list \<times> 'w" where
  "main C excel_path path_exists excel w =
     (if \<not> path_exists
      then (None, [Print (lit ''Error: Could not find '' @ excel_path)], w)
      else
        (case load_candidates excel of
           Inl e \<Rightarrow>
             if \<not> is_exception e then (Some e, [reading_line excel_path], w)
             else
               (None,
                [reading_line excel_path, Print (lit ''Error reading Excel file: '' @ exn_msg e)],
                w)
         | Inr candidates \<Rightarrow>
             if rows candidates = []
             then (None,
                   [reading_line excel_path, found_line (length (rows candidates)),
                    Print (lit ''No candidates found with Conclusion = '' @ [39] @ lit ''Yes''
                           @ [39] @ lit ''.'')],
                   w)
             else
               (case start_browser C w of
                  (Some e, w0) \<Rightarrow>
                    (Some e, [reading_line excel_path, found_line (length (rows candidates))], w0)
                | (None, w0) \<Rightarrow>
                    (case browser_block C candidates w0 of
                       (res, ev, w1) \<Rightarrow>
                         (res,
                          [reading_line excel_path, found_line (length (rows candidates)),
                           Browser_open]
                          @ ev @ [Browser_close]
                          @ (if res = None then [done_line] else []),
                          close_browser C w1)))))"

section \<open>Reading a run's events\<close>

text \<open>The URLs handed to \<^verbatim>\<open>scraper.scrape\<close>, in order.\<close>

fun scrape_call :: "event \<Rightarrow> pystr option" where
  "scrape_call (Scrape u) = Some u"
| "scrape_call _ = None"

definition scrape_calls :: "event list \<Rightarrow> pystr list" where
  "scrape_calls ev = List.map_filter scrape_call ev"

text \<open>The pacing delays: the sleeps of random length.\<close>

fun is_pacing :: "event \<Rightarrow> bool" where
  "is_pacing (Sleep_uniform a b) = True"
| "is_pacing _ = False"

text \<open>
  The script keeps no list of outcomes: an outcome is the line it prints for a row,
  recognised by how the line starts.
\<close>

datatype outcome = Success | Skipped | Failed

fun outcome_of :: "event \<Rightarrow> outcome option" where
  "outcome_of (Print s) =
     (if prefix (lit ''Skipping '') s then Some Skipped
      else if prefix (10003 # lit '' Success!'') s then Some Success
      else if prefix (10060 # lit '' Failed to scrape '') s then Some Failed
      else None)"
| "outcome_of _ = None"

definition outcomes :: "event list \<Rightarrow> outcome list" where
  "outcomes ev = List.map_filter outcome_of ev"


text \<open>The check of line 70 passes: the loop body goes on to scrape.\<close>

definition url_usable :: "cell \<Rightarrow> bool" where
  "url_usable c = (\<not> (\<not> truthy c \<or> isna c))"

text \<open>
  A row yields a candidate: the selection keeps it and the loop body, run on it, calls
  the scraper.
\<close>

definition yields_candidate :: "'w collab \<Rightarrow> frame \<Rightarrow> nat \<times> row \<Rightarrow> 'w \<Rightarrow> bool" where
  "yields_candidate C df ir w =
     (case select_candidates df of
        Inl e \<Rightarrow> False
      | Inr candidates \<Rightarrow>
          ir \<in> set (rows candidates)
          \<and> scrape_calls (fst (snd (process_row C (columns candidates) ir w))) \<noteq> [])"

text \<open>
  The inclusion rule in the words of the specification: the conclusion, absent values
  as the empty string, trimmed and case-folded, equals \<^verbatim>\<open>yes\<close>, and the profile URL is
  present and not a missing-value marker.
\<close>

definition spec_candidate :: "pystr list \<Rightarrow> row \<Rightarrow> bool" where
  "spec_candidate cols r =
     (str_lower (strip (py_str (fillna [] (row_get cols r (lit ''Conclusion''))))) = lit ''yes''
      \<and> row_get cols r (lit ''LinkedIn'') \<noteq> PyNone
      \<and> row_get cols r (lit ''LinkedIn'') \<noteq> NaN)"

section \<open>A sheet and collaborators to run the script on\<close>

definition sheet_columns :: "pystr list" where
  "sheet_columns = [lit ''Nama Mahasiswa'', lit ''LinkedIn'', lit ''Conclusion'']"

definition sheet_row :: "cell \<Rightarrow> cell \<Rightarrow> cell \<Rightarrow> row" where
  "sheet_row nm url conclusion =
     (\<lambda>k. if k = lit ''Nama Mahasiswa'' then nm
          else if k = lit ''LinkedIn'' then url
          else if k = lit ''Conclusion'' then conclusion
          else NaN)"

definition sheet :: "(nat \<times> row) list \<Rightarrow> frame" where
  "sheet rs = \<lparr>columns = sheet_columns, rows = rs\<rparr>"

definition alice_row :: row where
  "alice_row = sheet_row (Str (lit ''Alice'')) (Str (lit ''https://x/a'')) (Str (lit ''Yes''))"

definition carol_row :: row where
  "carol_row = sheet_row (Str (lit ''Carol'')) (Str (lit ''https://x/c'')) (Str (lit ''YES''))"

definition timeout_error :: exn where
  "timeout_error =
     \<lparr>exn_type = lit ''TimeoutError'', exn_msg = lit ''timed out'', is_exception = True\<rparr>"

definition closed_error :: exn where
  "closed_error =
     \<lparr>exn_type = lit ''TargetClosedError'', exn_msg = lit ''page closed'', is_exception = True\<rparr>"

definition cancelled_error :: exn where
  "cancelled_error = \<lparr>exn_type = lit ''CancelledError'', exn_msg = [], is_exception = False\<rparr>"

definition alice :: person where
  "alice =
     \<lparr>name = Some (lit ''Alice''), location = None, about = Some (replicate 120 97),
      experiences =
        [\<lparr>position_title = Some (lit ''Engineer''), institution_name = Some (lit ''Acme'')\<rparr>,
         \<lparr>position_title = Some (lit ''Intern''), institution_name = None\<rparr>,
         \<lparr>position_title = None, institution_name = Some (lit ''Lab'')\<rparr>],
      educations = [\<lparr>edu_institution_name = Some (lit ''ITB'')\<rparr>]\<rparr>"

text \<open>
  Collaborators whose world counts the scrapes made: scraping fails with a timeout on
  the URLs of \<open>bad_urls\<close>, the screenshot fails on the paths of \<open>bad_shots\<close>, and the
  session loads when \<open>session_ok\<close>.
\<close>

definition demo :: "pystr list \<Rightarrow> pystr list \<Rightarrow> bool \<Rightarrow> nat collab" where
  "demo bad_urls bad_shots session_ok =
     \<lparr>start_browser = (\<lambda>w. (None, w)),
      close_browser = (\<lambda>w. w),
      load_session = (\<lambda>f w. (if session_ok then None else Some closed_error, w)),
      scrape = (\<lambda>url w. (if url \<in> set bad_urls then Inl timeout_error else Inr alice, Suc w)),
      page_url = (\<lambda>w. lit ''https://x/feed''),
      screenshot = (\<lambda>f w. (if f \<in> set bad_shots then Some closed_error else None, w))\<rparr>"

section \<open>Facts about strings and traces\<close>

lemma lit_Nil: "lit [] = []"
  by (simp add: lit_def)

lemma lit_Cons: "lit (c # cs) = of_char c # lit cs"
  by (simp add: lit_def)

lemma outcome_of_other:
  "c \<noteq> 83 \<Longrightarrow> c \<noteq> 10003 \<Longrightarrow> c \<noteq> 10060 \<Longrightarrow> outcome_of (Print (c # s)) = None"
  by (simp add: lit_Cons)

lemma outcome_of_skipping: "outcome_of (Print (lit ''Skipping '' @ s)) = Some Skipped"
  by simp

lemma outcome_of_success:
  "outcome_of (Print (10003 # lit '' Success! Current URL: '' @ s)) = Some Success"
  by (simp add: lit_Cons lit_Nil)

lemma outcome_of_failed: "outcome_of (Print (10060 # lit '' Failed to scrape '' @ s)) = Some Failed"
  by (simp add: lit_Cons)

declare outcome_of.simps(1) [simp del]

lemma dashes_Cons: "dashes = 45 # replicate 39 45"
proof -
  have "(40::nat) = Suc 39" by simp
  then show ?thesis unfolding dashes_def by (simp only: replicate_Suc)
qed

lemma outcome_of_dashes: "outcome_of (Print dashes) = None"
  by (simp add: dashes_Cons outcome_of_other)

lemma scrape_calls_append: "scrape_calls (a @ b) = scrape_calls a @ scrape_calls b"
  by (simp add: scrape_calls_def map_filter_def)

lemma outcomes_append: "outcomes (a @ b) = outcomes a @ outcomes b"
  by (simp add: outcomes_def map_filter_def)

lemma scrape_calls_Cons:
  "scrape_calls (e # es) = (case scrape_call e of None \<Rightarrow> scrape_calls es | Some u \<Rightarrow> u # scrape_calls es)"
  by (simp add: scrape_calls_def map_filter_def split: option.splits)

lemma outcomes_Cons:
  "outcomes (e # es) = (case outcome_of e of None \<Rightarrow> outcomes es | Some u \<Rightarrow> u # outcomes es)"
  by (simp add: outcomes_def map_filter_def split: option.splits)

lemma scrape_calls_Nil: "scrape_calls [] = []"
  by (simp add: scrape_calls_def map_filter_def)

lemma outcomes_Nil: "outcomes [] = []"
  by (simp add: outcomes_def map_filter_def)

lemma scrape_calls_prints: "scrape_calls (map (\<lambda>x. Print (f x)) xs) = []"
  by (induction xs) (simp_all add: scrape_calls_Nil scrape_calls_Cons)

lemma scrape_calls_report: "scrape_calls (report p) = []"
  by (simp add: report_def scrape_calls_append scrape_calls_Cons scrape_calls_Nil scrape_calls_prints)

lemma pacing_prints: "filter is_pacing (map (\<lambda>x. Print (f x)) xs) = []"
  by (induction xs) simp_all

lemma pacing_report: "filter is_pacing (report p) = []"
  by (simp add: report_def pacing_prints)

lemma outcomes_prints:
  "(\<And>x. outcome_of (Print (f x)) = None) \<Longrightarrow> outcomes (map (\<lambda>x. Print (f x)) xs) = []"
  by (induction xs) (simp_all add: outcomes_Nil outcomes_Cons)

lemma outcomes_report: "outcomes (report p) = []"
proof -
  have item: "outcome_of (Print (lit ''  - '' @ s)) = None" for s
    by (simp add: lit_Cons outcome_of_other)
  have 1: "outcome_of (Print (lit ''Person: '' @ s)) = None" for s
    by (simp add: lit_Cons outcome_of_other)
  have 2: "outcome_of (Print (lit ''Location: '' @ s)) = None" for s
    by (simp add: lit_Cons outcome_of_other)
  have 3: "outcome_of (Print (lit ''About: '' @ s)) = None" for s
    by (simp add: lit_Cons outcome_of_other)
  have 4: "outcome_of (Print (lit ''Work Experience ('' @ s)) = None" for s
    by (simp add: lit_Cons outcome_of_other)
  have 5: "outcome_of (Print (lit ''Education ('' @ s)) = None" for s
    by (simp add: lit_Cons outcome_of_other)
  show ?thesis
    by (simp add: report_def outcomes_append outcomes_Cons outcomes_Nil outcome_of_dashes
        outcomes_prints item 1 2 3 4 5)
qed

lemma outcomes_failure_lines: "outcomes (failure_lines nm e u) = [Failed]"
  by (simp add: failure_lines_def outcomes_Cons outcomes_Nil outcome_of_failed outcome_of_other)

lemma strip_spaces: "\<forall>c \<in> set s. is_space c \<Longrightarrow> strip s = []"
  by (auto simp: strip_def dest: set_dropWhileD)

lemma url_usable_iff: "url_usable c \<longleftrightarrow> truthy c \<and> \<not> isna c"
  by (simp add: url_usable_def)

lemma process_row_skip:
  "\<not> url_usable (row_get cols r (lit ''LinkedIn'')) \<Longrightarrow>
   process_row C cols (index, r) w =
     (None,
      [Print (lit ''Skipping '' @ py_str (row_get cols r (lit ''Nama Mahasiswa''))
              @ lit '': No LinkedIn URL found'')],
      w)"
  by (simp add: process_row_def url_usable_def Let_def)

lemma process_row_success:
  "url_usable (row_get cols r (lit ''LinkedIn'')) \<Longrightarrow>
   scrape C (strip (py_str (row_get cols r (lit ''LinkedIn'')))) w = (Inr p, w1) \<Longrightarrow>
   process_row C cols (index, r) w =
     (None,
      started index (row_get cols r (lit ''Nama Mahasiswa''))
        (strip (py_str (row_get cols r (lit ''LinkedIn''))))
      @ [Sleep 15, Print (10003 # lit '' Success! Current URL: '' @ page_url C w1)]
      @ report p
      @ [Sleep_uniform 2.2 4.313],
      w1)"
  by (simp add: process_row_def url_usable_def Let_def)

lemma process_row_uncaught:
  "url_usable (row_get cols r (lit ''LinkedIn'')) \<Longrightarrow>
   scrape C (strip (py_str (row_get cols r (lit ''LinkedIn'')))) w = (Inl e, w1) \<Longrightarrow>
   \<not> is_exception e \<Longrightarrow>
   process_row C cols (index, r) w =
     (Some e,
      started index (row_get cols r (lit ''Nama Mahasiswa''))
        (strip (py_str (row_get cols r (lit ''LinkedIn'')))),
      w1)"
  by (simp add: process_row_def url_usable_def Let_def)

lemma process_row_failure:
  "url_usable (row_get cols r (lit ''LinkedIn'')) \<Longrightarrow>
   scrape C (strip (py_str (row_get cols r (lit ''LinkedIn'')))) w = (Inl e, w1) \<Longrightarrow>
   is_exception e \<Longrightarrow>
   process_row C cols (index, r) w =
     (case screenshot C (error_png index) w1 of
        (Some e2, w2) \<Rightarrow>
          (Some e2,
           started index (row_get cols r (lit ''Nama Mahasiswa''))
             (strip (py_str (row_get cols r (lit ''LinkedIn''))))
           @ failure_lines (row_get cols r (lit ''Nama Mahasiswa'')) e (page_url C w1)
           @ [Screenshot (error_png index)],
           w2)
      | (None, w2) \<Rightarrow>
          (None,
           started index (row_get cols r (lit ''Nama Mahasiswa''))
             (strip (py_str (row_get cols r (lit ''LinkedIn''))))
           @ failure_lines (row_get cols r (lit ''Nama Mahasiswa'')) e (page_url C w1)
           @ [Screenshot (error_png index),
              Print (128248 # lit '' Screenshot saved as '' @ error_png index)],
           w2))"
  by (simp add: process_row_def url_usable_def Let_def split: prod.splits option.splits)

lemma scrape_calls_started: "scrape_calls (started index nm url) = [url]"
  by (simp add: started_def scrape_calls_Cons scrape_calls_Nil)

lemma scrape_calls_failure_lines: "scrape_calls (failure_lines nm e u) = []"
  by (simp add: failure_lines_def scrape_calls_Cons scrape_calls_Nil)

lemma outcomes_started: "outcomes (started index nm url) = []"
  by (simp add: started_def outcomes_Cons outcomes_Nil outcome_of_other)

lemma pacing_started: "filter is_pacing (started index nm url) = []"
  by (simp add: started_def)

lemma pacing_failure_lines: "filter is_pacing (failure_lines nm e u) = []"
  by (simp add: failure_lines_def)

lemma scrape_calls_process_row:
  "scrape_calls (fst (snd (process_row C cols (index, r) w))) =
     (if url_usable (row_get cols r (lit ''LinkedIn''))
      then [strip (py_str (row_get cols r (lit ''LinkedIn'')))] else [])"
proof (cases "url_usable (row_get cols r (lit ''LinkedIn''))")
  case False
  then show ?thesis
    by (simp add: process_row_skip scrape_calls_Cons scrape_calls_Nil)
next
  case True
  obtain sr w1 where s: "scrape C (strip (py_str (row_get cols r (lit ''LinkedIn'')))) w = (sr, w1)"
    by (cases "scrape C (strip (py_str (row_get cols r (lit ''LinkedIn'')))) w")
  show ?thesis
  proof (cases sr)
    case (Inr p)
    with True s show ?thesis
      by (simp add: process_row_success scrape_calls_append scrape_calls_started
          scrape_calls_report scrape_calls_Cons scrape_calls_Nil)
  next
    case (Inl e)
    with True s show ?thesis
      by (cases "is_exception e")
        (simp_all add: process_row_failure process_row_uncaught scrape_calls_append
          scrape_calls_started scrape_calls_failure_lines scrape_calls_Cons scrape_calls_Nil
          split: prod.splits option.splits)
  qed
qed

lemma outcomes_of_row:
  "outcomes (fst (snd (process_row C cols (index, r) w))) =
     (if \<not> url_usable (row_get cols r (lit ''LinkedIn'')) then [Skipped]
      else case fst (scrape C (strip (py_str (row_get cols r (lit ''LinkedIn'')))) w) of
             Inr p \<Rightarrow> [Success]
           | Inl e \<Rightarrow> if is_exception e then [Failed] else [])"
proof (cases "url_usable (row_get cols r (lit ''LinkedIn''))")
  case False
  then show ?thesis
    by (simp add: process_row_skip outcomes_Cons outcomes_Nil outcome_of_skipping)
next
  case True
  obtain sr w1 where s: "scrape C (strip (py_str (row_get cols r (lit ''LinkedIn'')))) w = (sr, w1)"
    by (cases "scrape C (strip (py_str (row_get cols r (lit ''LinkedIn'')))) w")
  show ?thesis
  proof (cases sr)
    case (Inr p)
    with True s show ?thesis
      by (simp add: process_row_success outcomes_append outcomes_started
          outcomes_report outcomes_Cons outcomes_Nil outcome_of_success)
  next
    case (Inl e)
    with True s show ?thesis
      by (cases "is_exception e")
        (simp_all add: process_row_failure process_row_uncaught outcomes_append
          outcomes_started outcomes_failure_lines outcomes_Cons outcomes_Nil outcome_of_other
          split: prod.splits option.splits)
  qed
qed

lemma uncaught_scrape_raises:
  assumes "url_usable (row_get cols r (lit ''LinkedIn''))"
    and "fst (scrape C (strip (py_str (row_get cols r (lit ''LinkedIn'')))) w) = Inl e"
    and "\<not> is_exception e"
  shows "fst (process_row C cols (index, r) w) = Some e"
proof -
  obtain w1 where "scrape C (strip (py_str (row_get cols r (lit ''LinkedIn'')))) w = (Inl e, w1)"
    using assms(2) by (cases "scrape C (strip (py_str (row_get cols r (lit ''LinkedIn'')))) w") simp
  then show ?thesis
    using assms(1,3) by (simp add: process_row_uncaught)
qed

lemma outcomes_row_returns:
  assumes "process_row C cols ir w = (None, ev, w1)"
  shows "length (outcomes ev) = 1"
proof (cases ir)
  case (Pair index r)
  have ev: "outcomes ev = outcomes (fst (snd (process_row C cols (index, r) w)))"
    using assms Pair by simp
  show ?thesis
  proof (cases "url_usable (row_get cols r (lit ''LinkedIn''))")
    case False
    then show ?thesis
      by (simp add: ev outcomes_of_row)
  next
    case True
    show ?thesis
    proof (cases "fst (scrape C (strip (py_str (row_get cols r (lit ''LinkedIn'')))) w)")
      case (Inr p)
      with True show ?thesis
        by (simp add: ev outcomes_of_row)
    next
      case (Inl e)
      have "is_exception e"
      proof (rule ccontr)
        assume "\<not> is_exception e"
        with True Inl have "fst (process_row C cols (index, r) w) = Some e"
          by (rule uncaught_scrape_raises)
        with assms Pair show False by simp
      qed
      with True Inl show ?thesis
        by (simp add: ev outcomes_of_row)
    qed
  qed
qed

section \<open>The sheet used in the examples\<close>

lemma sheet_row_name: "row_get sheet_columns (sheet_row nm url c) (lit ''Nama Mahasiswa'') = nm"
  by (simp add: row_get_def sheet_columns_def sheet_row_def)

lemma sheet_row_url: "row_get sheet_columns (sheet_row nm url c) (lit ''LinkedIn'') = url"
  by (simp add: row_get_def sheet_columns_def sheet_row_def lit_def)

lemma sheet_row_conclusion: "row_get sheet_columns (sheet_row nm url c) (lit ''Conclusion'') = c"
  by (simp add: row_get_def sheet_columns_def sheet_row_def lit_def)

lemma columns_sheet: "columns (sheet rs) = sheet_columns"
  by (simp add: sheet_def)

lemma rows_sheet: "rows (sheet rs) = rs"
  by (simp add: sheet_def)

lemma conclusion_is_yes_None: "\<not> conclusion_is_yes PyNone"
  by (simp add: conclusion_is_yes_def fillna_def str_lower_def lit_def)

lemma select_candidates_rows:
  "select_candidates df = Inr candidates \<Longrightarrow>
   columns candidates = columns df \<and>
   rows candidates = filter (\<lambda>(index, r). conclusion_is_yes (r (lit ''Conclusion''))) (rows df)"
  by (auto simp: select_candidates_def split: if_splits)

text \<open>
  C1, as the code has it: a row of the sheet yields a candidate exactly when its
  conclusion, missing values as the empty string and lower-cased but not trimmed,
  equals \<^verbatim>\<open>yes\<close>, and its profile URL is true as a Python value and not a missing-value
  marker.
\<close>

theorem candidate_iff_yes_and_usable_url:
  assumes "ir \<in> set (rows df)"
  shows "yields_candidate C df ir w \<longleftrightarrow>
           str_lower (py_str (fillna [] (row_get (columns df) (snd ir) (lit ''Conclusion'')))) = lit ''yes''
           \<and> truthy (row_get (columns df) (snd ir) (lit ''LinkedIn''))
           \<and> \<not> isna (row_get (columns df) (snd ir) (lit ''LinkedIn''))"
proof (cases "lit ''Conclusion'' \<in> set (columns df)")
  case False
  then have "select_candidates df = Inl (key_error (lit ''Conclusion''))"
    by (simp add: select_candidates_def)
  then have "\<not> yields_candidate C df ir w"
    by (simp add: yields_candidate_def)
  moreover from False have "row_get (columns df) (snd ir) (lit ''Conclusion'') = PyNone"
    by (simp add: row_get_def)
  ultimately show ?thesis
    using conclusion_is_yes_None by (simp add: conclusion_is_yes_def)
next
  case True
  obtain index r where ir: "ir = (index, r)"
    by (cases ir)
  from True obtain candidates where sel: "select_candidates df = Inr candidates"
    by (simp add: select_candidates_def)
  note cs = select_candidates_rows [OF sel]
  from True have get: "row_get (columns df) r (lit ''Conclusion'') = r (lit ''Conclusion'')"
    by (simp add: row_get_def)
  have "yields_candidate C df ir w \<longleftrightarrow>
          conclusion_is_yes (r (lit ''Conclusion''))
          \<and> url_usable (row_get (columns df) r (lit ''LinkedIn''))"
    using assms by (simp add: yields_candidate_def sel cs ir scrape_calls_process_row)
  then show ?thesis
    by (simp add: ir get conclusion_is_yes_def url_usable_iff)
qed

theorem candidate_iff_yes_and_usable_url_witness:
  "yields_candidate (demo [] [] True)
     (sheet [(0, sheet_row (Str (lit ''Alice'')) (Str (lit ''https://x/a'')) (Str (lit ''YES'')))])
     (0, sheet_row (Str (lit ''Alice'')) (Str (lit ''https://x/a'')) (Str (lit ''YES''))) (0::nat)"
proof -
  have "str_lower (lit ''YES'') = lit ''yes''" and "lit ''https://x/a'' \<noteq> []"
    by (simp_all add: str_lower_def lower_cp_def lit_def)
  then show ?thesis
    using candidate_iff_yes_and_usable_url
      [of "(0, sheet_row (Str (lit ''Alice'')) (Str (lit ''https://x/a'')) (Str (lit ''YES'')))"
          "sheet [(0, sheet_row (Str (lit ''Alice'')) (Str (lit ''https://x/a'')) (Str (lit ''YES'')))]"
          "demo [] [] True" 0]
    by (simp add: rows_sheet columns_sheet sheet_row_url sheet_row_conclusion fillna_def)
qed

text \<open>
  The rule in the specification's words differs from the code on a conclusion with a
  space around it, which the code does not trim, and on a URL cell holding the number
  0, which is present and not a missing-value marker but false as a Python value.
\<close>

theorem candidate_rule_counterexample:
  "spec_candidate sheet_columns (sheet_row (Str (lit ''Alice'')) (Str (lit ''https://x/a'')) (Str (lit '' Yes'')))
   \<and> \<not> yields_candidate (demo [] [] True)
         (sheet [(0, sheet_row (Str (lit ''Alice'')) (Str (lit ''https://x/a'')) (Str (lit '' Yes'')))])
         (0, sheet_row (Str (lit ''Alice'')) (Str (lit ''https://x/a'')) (Str (lit '' Yes''))) (0::nat)
   \<and> spec_candidate sheet_columns (sheet_row (Str (lit ''Bob'')) (Num 0) (Str (lit ''yes'')))
   \<and> \<not> yields_candidate (demo [] [] True)
         (sheet [(1, sheet_row (Str (lit ''Bob'')) (Num 0) (Str (lit ''yes'')))])
         (1, sheet_row (Str (lit ''Bob'')) (Num 0) (Str (lit ''yes''))) (0::nat)"
proof -
  have low: "str_lower (lit ''Yes'') = lit ''yes''" "str_lower (lit ''yes'') = lit ''yes''"
    by (simp_all add: str_lower_def lower_cp_def lit_def)
  have low2: "str_lower (lit '' Yes'') \<noteq> lit ''yes''"
    by (simp add: str_lower_def lower_cp_def lit_def)
  have st: "strip (lit '' Yes'') = lit ''Yes''" "strip (lit ''yes'') = lit ''yes''"
    by (simp_all add: strip_def is_space_def lit_def)
  have sel: "lit ''Conclusion'' \<in> set sheet_columns"
    by (simp add: sheet_columns_def)
  have a: "spec_candidate sheet_columns (sheet_row (Str (lit ''Alice'')) (Str (lit ''https://x/a'')) (Str (lit '' Yes'')))"
    by (simp add: spec_candidate_def sheet_row_url sheet_row_conclusion fillna_def st low)
  have b: "spec_candidate sheet_columns (sheet_row (Str (lit ''Bob'')) (Num 0) (Str (lit ''yes'')))"
    by (simp add: spec_candidate_def sheet_row_url sheet_row_conclusion fillna_def st low)
  have c: "\<not> yields_candidate (demo [] [] True)
         (sheet [(0, sheet_row (Str (lit ''Alice'')) (Str (lit ''https://x/a'')) (Str (lit '' Yes'')))])
         (0, sheet_row (Str (lit ''Alice'')) (Str (lit ''https://x/a'')) (Str (lit '' Yes''))) (0::nat)"
    using sheet_row_conclusion [of "Str (lit ''Alice'')" "Str (lit ''https://x/a'')" "Str (lit '' Yes'')"] sel low2
    by (simp add: yields_candidate_def select_candidates_def columns_sheet rows_sheet
        conclusion_is_yes_def fillna_def row_get_def)
  have d: "\<not> yields_candidate (demo [] [] True)
         (sheet [(1, sheet_row (Str (lit ''Bob'')) (Num 0) (Str (lit ''yes'')))])
         (1, sheet_row (Str (lit ''Bob'')) (Num 0) (Str (lit ''yes''))) (0::nat)"
    using sel
    by (simp add: yields_candidate_def select_candidates_def columns_sheet rows_sheet
        scrape_calls_process_row sheet_row_url url_usable_def)
  from a b c d show ?thesis by simp
qed

section \<open>The loop\<close>

lemma run_rows_raise:
  "process_row C cols ir w = (Some e, ev, w1) \<Longrightarrow> run_rows C cols (ir # rest) w = (Some e, ev, w1)"
  by simp

lemma run_rows_next:
  "process_row C cols ir w = (None, ev, w1) \<Longrightarrow>
   run_rows C cols (ir # rest) w =
     (case run_rows C cols rest w1 of (res, ev2, w2) \<Rightarrow> (res, ev @ ev2, w2))"
  by simp

lemma run_rows_append:
  "run_rows C cols (xs @ ys) w =
     (case run_rows C cols xs w of
        (Some e, ev, w1) \<Rightarrow> (Some e, ev, w1)
      | (None, ev, w1) \<Rightarrow>
          (case run_rows C cols ys w1 of (res, ev2, w2) \<Rightarrow> (res, ev @ ev2, w2)))"
proof (induction xs arbitrary: w)
  case Nil
  show ?case by (simp split: prod.splits)
next
  case (Cons x xs)
  show ?case
    by (simp add: Cons.IH split: prod.splits option.splits)
qed

lemma one_outcome_per_row:
  "run_rows C cols rs w = (None, ev, w') \<Longrightarrow> length (outcomes ev) = length rs"
proof (induction rs arbitrary: w ev w')
  case Nil
  then show ?case by (simp add: outcomes_Nil)
next
  case (Cons ir rs)
  obtain res1 ev1 w1 where p: "process_row C cols ir w = (res1, ev1, w1)"
    by (cases "process_row C cols ir w")
  obtain res2 ev2 w2 where r: "run_rows C cols rs w1 = (res2, ev2, w2)"
    by (cases "run_rows C cols rs w1")
  from Cons.prems p r have res: "res1 = None" "res2 = None" and ev: "ev = ev1 @ ev2"
    by (auto split: option.splits)
  have "length (outcomes ev1) = 1"
    using p res(1) by (simp add: outcomes_row_returns)
  moreover have "length (outcomes ev2) = length rs"
    using Cons.IH r res by simp
  ultimately show ?case
    by (simp add: ev outcomes_append)
qed

section \<open>The example collaborators\<close>

lemma demo_scrape:
  "scrape (demo bad_urls bad_shots ok) url w =
     (if url \<in> set bad_urls then Inl timeout_error else Inr alice, Suc w)"
  by (simp add: demo_def)

lemma demo_screenshot:
  "screenshot (demo bad_urls bad_shots ok) f w =
     (if f \<in> set bad_shots then Some closed_error else None, w)"
  by (simp add: demo_def)

lemma demo_load_session:
  "load_session (demo bad_urls bad_shots ok) f w = (if ok then None else Some closed_error, w)"
  by (simp add: demo_def)

lemma demo_start_browser: "start_browser (demo bad_urls bad_shots ok) w = (None, w)"
  by (simp add: demo_def)

lemma demo_close_browser: "close_browser (demo bad_urls bad_shots ok) w = w"
  by (simp add: demo_def)

lemma demo_page_url: "page_url (demo bad_urls bad_shots ok) w = lit ''https://x/feed''"
  by (simp add: demo_def)

lemma alice_row_url: "row_get sheet_columns alice_row (lit ''LinkedIn'') = Str (lit ''https://x/a'')"
  by (simp add: alice_row_def sheet_row_url)

lemma carol_row_url: "row_get sheet_columns carol_row (lit ''LinkedIn'') = Str (lit ''https://x/c'')"
  by (simp add: carol_row_def sheet_row_url)

lemma strip_alice_url: "strip (lit ''https://x/a'') = lit ''https://x/a''"
  by (simp add: strip_def is_space_def lit_def)

lemma strip_carol_url: "strip (lit ''https://x/c'') = lit ''https://x/c''"
  by (simp add: strip_def is_space_def lit_def)

lemma usable_alice_url: "url_usable (Str (lit ''https://x/a''))"
  by (simp add: url_usable_def lit_def)

lemma usable_carol_url: "url_usable (Str (lit ''https://x/c''))"
  by (simp add: url_usable_def lit_def)

lemma urls_differ: "lit ''https://x/c'' \<noteq> lit ''https://x/a''"
  by (simp add: lit_def)

lemma timeout_is_exception: "is_exception timeout_error"
  by (simp add: timeout_error_def)

lemma closed_is_exception: "is_exception closed_error"
  by (simp add: closed_error_def)

lemma cancelled_is_no_exception: "\<not> is_exception cancelled_error"
  by (simp add: cancelled_error_def)

lemma error_png_0: "error_png 0 = lit ''error_0.png''"
  by (simp add: error_png_def str_of_nat.simps lit_def)

text \<open>
  C2, as the code has it: the pacing delay of \<^verbatim>\<open>random.uniform(2.2, 4.313)\<close> seconds is
  the last statement of the \<^verbatim>\<open>try\<close> block, so an attempted row is followed by it when the
  scrape returned, and by no delay at all when the scrape raised.
\<close>

theorem pacing_delay_only_after_success:
  assumes "url_usable (row_get cols r (lit ''LinkedIn''))"
  shows "filter is_pacing (fst (snd (process_row C cols (index, r) w))) =
           (case fst (scrape C (strip (py_str (row_get cols r (lit ''LinkedIn'')))) w) of
              Inr p \<Rightarrow> [Sleep_uniform 2.2 4.313]
            | Inl e \<Rightarrow> [])"
proof -
  obtain sr w1 where s: "scrape C (strip (py_str (row_get cols r (lit ''LinkedIn'')))) w = (sr, w1)"
    by (cases "scrape C (strip (py_str (row_get cols r (lit ''LinkedIn'')))) w")
  show ?thesis
  proof (cases sr)
    case (Inr p)
    with assms s show ?thesis
      by (simp add: process_row_success pacing_started pacing_report)
  next
    case (Inl e)
    with assms s show ?thesis
      by (cases "is_exception e")
        (simp_all add: process_row_failure process_row_uncaught pacing_started
          pacing_failure_lines split: prod.splits option.splits)
  qed
qed

theorem pacing_delay_only_after_success_witness:
  "filter is_pacing
     (fst (snd (process_row (demo [lit ''https://x/a''] [] True) sheet_columns (0, alice_row) (0::nat)))) = []
   \<and> scrape_calls
       (fst (snd (run_rows (demo [lit ''https://x/a''] [] True) sheet_columns
          [(0, alice_row), (1, carol_row)] (0::nat)))) = [lit ''https://x/a'', lit ''https://x/c'']
   \<and> filter is_pacing
       (fst (snd (run_rows (demo [lit ''https://x/a''] [] True) sheet_columns
          [(0, alice_row), (1, carol_row)] (0::nat)))) = [Sleep_uniform 2.2 4.313]"
proof -
  let ?C = "demo [lit ''https://x/a''] [] True"
  have a: "filter is_pacing (fst (snd (process_row ?C sheet_columns (0, alice_row) (0::nat)))) = []"
    using pacing_delay_only_after_success [of sheet_columns alice_row ?C 0 0]
    by (simp add: alice_row_url usable_alice_url strip_alice_url demo_scrape)
  have c: "filter is_pacing (fst (snd (process_row ?C sheet_columns (1, carol_row) (1::nat)))) =
             [Sleep_uniform 2.2 4.313]"
    using pacing_delay_only_after_success [of sheet_columns carol_row ?C 1 1]
    by (simp add: carol_row_url usable_carol_url strip_carol_url demo_scrape urls_differ)
  obtain ev1 where p1: "process_row ?C sheet_columns (0, alice_row) (0::nat) = (None, ev1, 1)"
    by (simp add: process_row_failure alice_row_url usable_alice_url strip_alice_url
        demo_scrape demo_screenshot timeout_is_exception)
  obtain ev2 where p2: "process_row ?C sheet_columns (1, carol_row) (1::nat) = (None, ev2, 2)"
    by (simp add: process_row_success [where p = alice and ?w1.0 = 2] carol_row_url
        usable_carol_url strip_carol_url demo_scrape urls_differ)
  have run: "run_rows ?C sheet_columns [(0, alice_row), (1, carol_row)] (0::nat) = (None, ev1 @ ev2, 2)"
    using p1 p2 by simp
  have s1: "scrape_calls ev1 = [lit ''https://x/a'']"
    using scrape_calls_process_row [of ?C sheet_columns 0 alice_row 0]
    by (simp add: p1 alice_row_url usable_alice_url strip_alice_url)
  have s2: "scrape_calls ev2 = [lit ''https://x/c'']"
    using scrape_calls_process_row [of ?C sheet_columns 1 carol_row 1] p2
    by (simp add: carol_row_url usable_carol_url strip_carol_url)
  from a c p1 p2 s1 s2 run show ?thesis
    by (simp add: scrape_calls_append)
qed

section \<open>A failed scrape\<close>

lemma run_rows_failure:
  assumes "url_usable (row_get cols r (lit ''LinkedIn''))"
    and "scrape C (strip (py_str (row_get cols r (lit ''LinkedIn'')))) w = (Inl e, w1)"
    and "is_exception e"
  shows "run_rows C cols ((index, r) # rest) w =
     (case screenshot C (error_png index) w1 of
        (Some e2, w2) \<Rightarrow>
          (Some e2,
           started index (row_get cols r (lit ''Nama Mahasiswa''))
             (strip (py_str (row_get cols r (lit ''LinkedIn''))))
           @ failure_lines (row_get cols r (lit ''Nama Mahasiswa'')) e (page_url C w1)
           @ [Screenshot (error_png index)],
           w2)
      | (None, w2) \<Rightarrow>
          (case run_rows C cols rest w2 of
             (res, ev2, w3) \<Rightarrow>
               (res,
                started index (row_get cols r (lit ''Nama Mahasiswa''))
                  (strip (py_str (row_get cols r (lit ''LinkedIn''))))
                @ failure_lines (row_get cols r (lit ''Nama Mahasiswa'')) e (page_url C w1)
                @ [Screenshot (error_png index),
                   Print (128248 # lit '' Screenshot saved as '' @ error_png index)]
                @ ev2,
                w3)))"
  using assms by (simp add: process_row_failure split: prod.splits option.splits)

lemma alice_row_name: "row_get sheet_columns alice_row (lit ''Nama Mahasiswa'') = Str (lit ''Alice'')"
  by (simp add: alice_row_def sheet_row_name)

text \<open>
  C4, as the code has it: an \<^verbatim>\<open>Exception\<close> raised by the scraper is caught. The failure
  line, the error's type and message and the page URL are printed, and the screenshot
  \<^verbatim>\<open>error_{index}.png\<close> is requested. The loop goes on to the next row only when the
  screenshot call returns; an error it raises leaves the loop.
\<close>

theorem scrape_error_then_screenshot_decides:
  assumes "url_usable (row_get cols r (lit ''LinkedIn''))"
    and "scrape C (strip (py_str (row_get cols r (lit ''LinkedIn'')))) w = (Inl e, w1)"
    and "is_exception e"
  shows "run_rows C cols ((index, r) # rest) w =
     (case screenshot C (lit ''error_'' @ str_of_nat index @ lit ''.png'') w1 of
        (Some e2, w2) \<Rightarrow>
          (Some e2,
           started index (row_get cols r (lit ''Nama Mahasiswa''))
             (strip (py_str (row_get cols r (lit ''LinkedIn''))))
           @ [Print (10060 # lit '' Failed to scrape '' @ py_str (row_get cols r (lit ''Nama Mahasiswa''))),
              Print (128308 # lit '' Error type: '' @ exn_type e),
              Print (128308 # lit '' Error: '' @ exn_msg e),
              Print (127760 # lit '' Current URL in browser: '' @ page_url C w1),
              Screenshot (lit ''error_'' @ str_of_nat index @ lit ''.png'')],
           w2)
      | (None, w2) \<Rightarrow>
          (case run_rows C cols rest w2 of
             (res, ev2, w3) \<Rightarrow>
               (res,
                started index (row_get cols r (lit ''Nama Mahasiswa''))
                  (strip (py_str (row_get cols r (lit ''LinkedIn''))))
                @ [Print (10060 # lit '' Failed to scrape '' @ py_str (row_get cols r (lit ''Nama Mahasiswa''))),
                   Print (128308 # lit '' Error type: '' @ exn_type e),
                   Print (128308 # lit '' Error: '' @ exn_msg e),
                   Print (127760 # lit '' Current URL in browser: '' @ page_url C w1),
                   Screenshot (lit ''error_'' @ str_of_nat index @ lit ''.png''),
                   Print (128248 # lit '' Screenshot saved as '' @ lit ''error_'' @ str_of_nat index
                          @ lit ''.png'')]
                @ ev2,
                w3)))"
proof -
  obtain shot w2 where shot: "screenshot C (error_png index) w1 = (shot, w2)"
    by (cases "screenshot C (error_png index) w1")
  obtain res ev2 w3 where rest: "run_rows C cols rest w2 = (res, ev2, w3)"
    by (cases "run_rows C cols rest w2")
  show ?thesis
    using run_rows_failure [OF assms, of index rest] shot rest
    by (cases shot) (simp_all add: failure_lines_def error_png_def del: run_rows.simps)
qed

theorem scrape_error_then_screenshot_decides_witness:
  "run_rows (demo [lit ''https://x/a''] [lit ''error_0.png''] True) sheet_columns
     [(0, alice_row), (1, carol_row)] (0::nat) =
     (Some closed_error,
      started 0 (Str (lit ''Alice'')) (lit ''https://x/a'')
      @ [Print (10060 # lit '' Failed to scrape '' @ lit ''Alice''),
         Print (128308 # lit '' Error type: '' @ lit ''TimeoutError''),
         Print (128308 # lit '' Error: '' @ lit ''timed out''),
         Print (127760 # lit '' Current URL in browser: '' @ lit ''https://x/feed''),
         Screenshot (lit ''error_0.png'')],
      1)"
proof -
  let ?C = "demo [lit ''https://x/a''] [lit ''error_0.png''] True"
  have h1: "url_usable (row_get sheet_columns alice_row (lit ''LinkedIn''))"
    by (simp add: alice_row_url usable_alice_url)
  have h2: "scrape ?C (strip (py_str (row_get sheet_columns alice_row (lit ''LinkedIn'')))) (0::nat) =
              (Inl timeout_error, 1)"
    by (simp add: alice_row_url strip_alice_url demo_scrape)
  have png: "lit ''error_'' @ str_of_nat 0 @ lit ''.png'' = lit ''error_0.png''"
    using error_png_0 by (simp add: error_png_def)
  have t: "exn_type timeout_error = lit ''TimeoutError''" "exn_msg timeout_error = lit ''timed out''"
    by (simp_all add: timeout_error_def)
  show ?thesis
    using scrape_error_then_screenshot_decides
      [OF h1 h2 timeout_is_exception, of 0 "[(1, carol_row)]", unfolded png]
    by (simp add: alice_row_url alice_row_name strip_alice_url demo_screenshot demo_page_url t)
qed

text \<open>
  C3, as the code has it: when the scrape of a row raises an \<^verbatim>\<open>Exception\<close> and the
  screenshot in the handler raises too, that row is the last one with an outcome. The
  rows before it have one outcome each, it has one (the failure line), and the rows
  after it, however many, have none.
\<close>

theorem outcomes_end_at_screenshot_error:
  assumes "run_rows C cols before w = (None, ev0, w0)"
    and "url_usable (row_get cols r (lit ''LinkedIn''))"
    and "scrape C (strip (py_str (row_get cols r (lit ''LinkedIn'')))) w0 = (Inl e, w1)"
    and "is_exception e"
    and "screenshot C (error_png index) w1 = (Some e2, w2)"
  shows "fst (run_rows C cols (before @ (index, r) # rest) w) = Some e2
         \<and> length (outcomes (fst (snd (run_rows C cols (before @ (index, r) # rest) w)))) =
             length before + 1"
proof -
  obtain ev where p: "process_row C cols (index, r) w0 = (Some e2, ev, w2)"
    using assms(2-5) by (simp add: process_row_failure)
  have "outcomes ev = [Failed]"
    using outcomes_of_row [of C cols index r w0] p assms(2-4) by simp
  moreover have "length (outcomes ev0) = length before"
    using assms(1) by (rule one_outcome_per_row)
  moreover have "run_rows C cols (before @ (index, r) # rest) w = (Some e2, ev0 @ ev, w2)"
    using assms(1) p by (simp add: run_rows_append)
  ultimately show ?thesis
    by (simp add: outcomes_append)
qed

theorem outcomes_end_at_screenshot_error_witness:
  "length ([] @ (0, alice_row) # [(1, carol_row)]) = 2
   \<and> fst (run_rows (demo [lit ''https://x/a''] [lit ''error_0.png''] True)
        sheet_columns ([] @ (0, alice_row) # [(1, carol_row)]) (0::nat)) = Some closed_error
   \<and> length (outcomes (fst (snd (run_rows (demo [lit ''https://x/a''] [lit ''error_0.png''] True)
        sheet_columns ([] @ (0, alice_row) # [(1, carol_row)]) (0::nat))))) = 1"
proof -
  let ?C = "demo [lit ''https://x/a''] [lit ''error_0.png''] True"
  have h0: "run_rows ?C sheet_columns [] (0::nat) = (None, [], 0)"
    by simp
  have h1: "url_usable (row_get sheet_columns alice_row (lit ''LinkedIn''))"
    by (simp add: alice_row_url usable_alice_url)
  have h2: "scrape ?C (strip (py_str (row_get sheet_columns alice_row (lit ''LinkedIn'')))) (0::nat) =
              (Inl timeout_error, 1)"
    by (simp add: alice_row_url strip_alice_url demo_scrape)
  have h4: "screenshot ?C (error_png 0) (1::nat) = (Some closed_error, 1)"
    by (simp add: demo_screenshot error_png_0)
  show ?thesis
    using outcomes_end_at_screenshot_error
      [OF h0 h1 h2 timeout_is_exception h4, of "[(1, carol_row)]"]
    by simp
qed

section \<open>Runs of \<open>main\<close>\<close>

lemma main_browser_block:
  assumes "load_candidates excel = Inr candidates"
    and "rows candidates \<noteq> []"
    and "start_browser C w = (None, w0)"
    and "browser_block C candidates w0 = (res, ev, w1)"
  shows "main C excel_path True excel w =
     (res,
      [reading_line excel_path, found_line (length (rows candidates)), Browser_open]
      @ ev @ [Browser_close] @ (if res = None then [done_line] else []),
      close_browser C w1)"
  using assms by (simp add: main_def)

lemma main_in_browser:
  assumes "load_candidates excel = Inr candidates"
    and "rows candidates \<noteq> []"
    and "start_browser C w = (None, w0)"
    and "load_session C session_file w0 = (loaded, w1)"
    and "\<not> uncaught loaded"
    and "run_rows C (columns candidates) (rows candidates) w1 = (res, ev, w2)"
  shows "main C excel_path True excel w =
     (res,
      [reading_line excel_path, found_line (length (rows candidates)), Browser_open,
       Load_session session_file, session_notice loaded]
      @ ev @ [Browser_close] @ (if res = None then [done_line] else []),
      close_browser C w2)"
proof -
  have "browser_block C candidates w0 =
          (res, Load_session session_file # session_notice loaded # ev, w2)"
    using assms(4-6) by (simp add: browser_block_def)
  from main_browser_block [OF assms(1-3) this, of excel_path] show ?thesis
    by simp
qed

lemma uncaught_None: "\<not> uncaught None"
  by (simp add: uncaught_def)

lemma uncaught_Some: "uncaught (Some e) \<longleftrightarrow> \<not> is_exception e"
  by (simp add: uncaught_def)

text \<open>
  C10: when the scrape of a row fails with an \<^verbatim>\<open>Exception\<close> and the screenshot in the
  handler raises too, the screenshot's error leaves the loop and \<open>main\<close>. The rows after
  it are not processed and the closing line is not printed; the browser is still
  released, as the last event.
\<close>

theorem screenshot_error_ends_batch:
  assumes "load_candidates excel = Inr candidates"
    and "rows candidates = before @ (index, r) # rest"
    and "start_browser C w = (None, w0)"
    and "load_session C session_file w0 = (loaded, w1)"
    and "\<not> uncaught loaded"
    and "run_rows C (columns candidates) before w1 = (None, ev0, w2)"
    and "url_usable (row_get (columns candidates) r (lit ''LinkedIn''))"
    and "scrape C (strip (py_str (row_get (columns candidates) r (lit ''LinkedIn'')))) w2 = (Inl e, w3)"
    and "is_exception e"
    and "screenshot C (error_png index) w3 = (Some e2, w4)"
  shows "main C excel_path True excel w =
     (Some e2,
      [reading_line excel_path, found_line (length (rows candidates)), Browser_open,
       Load_session session_file, session_notice loaded]
      @ ev0
      @ started index (row_get (columns candidates) r (lit ''Nama Mahasiswa''))
          (strip (py_str (row_get (columns candidates) r (lit ''LinkedIn''))))
      @ failure_lines (row_get (columns candidates) r (lit ''Nama Mahasiswa'')) e (page_url C w3)
      @ [Screenshot (error_png index), Browser_close],
      close_browser C w4)"
proof -
  have "run_rows C (columns candidates) ((index, r) # rest) w2 =
     (Some e2,
      started index (row_get (columns candidates) r (lit ''Nama Mahasiswa''))
          (strip (py_str (row_get (columns candidates) r (lit ''LinkedIn''))))
      @ failure_lines (row_get (columns candidates) r (lit ''Nama Mahasiswa'')) e (page_url C w3)
      @ [Screenshot (error_png index)],
      w4)"
    using run_rows_failure [OF assms(7) assms(8) assms(9), of index rest] assms(10) by simp
  then have run: "run_rows C (columns candidates) (rows candidates) w1 =
     (Some e2,
      ev0
      @ started index (row_get (columns candidates) r (lit ''Nama Mahasiswa''))
          (strip (py_str (row_get (columns candidates) r (lit ''LinkedIn''))))
      @ failure_lines (row_get (columns candidates) r (lit ''Nama Mahasiswa'')) e (page_url C w3)
      @ [Screenshot (error_png index)],
      w4)"
    using assms(2,6) by (simp add: run_rows_append)
  have ne: "rows candidates \<noteq> []"
    using assms(2) by simp
  show ?thesis
    using main_in_browser [OF assms(1) ne assms(3) assms(4) assms(5) run, of excel_path] by simp
qed

lemma load_two_rows:
  "load_candidates (Inr (sheet [(0, alice_row), (2, carol_row)])) =
     Inr (sheet [(0, alice_row), (2, carol_row)])"
proof -
  have "str_lower (lit ''Yes'') = lit ''yes''" and "str_lower (lit ''YES'') = lit ''yes''"
    by (simp_all add: str_lower_def lower_cp_def lit_def)
  moreover have "alice_row (lit ''Conclusion'') = Str (lit ''Yes'')"
    and "carol_row (lit ''Conclusion'') = Str (lit ''YES'')"
    by (simp_all add: alice_row_def carol_row_def sheet_row_def lit_def)
  moreover have "lit ''Conclusion'' \<in> set sheet_columns"
    by (simp add: sheet_columns_def)
  ultimately show ?thesis
    by (simp add: load_candidates_def select_candidates_def sheet_def conclusion_is_yes_def
        fillna_def)
qed

theorem screenshot_error_ends_batch_witness:
  "main (demo [lit ''https://x/a''] [lit ''error_0.png''] True) (lit ''Alumni Shared.xlsx'') True
     (Inr (sheet [(0, alice_row), (2, carol_row)])) (0::nat) =
     (Some closed_error,
      [reading_line (lit ''Alumni Shared.xlsx''), found_line 2, Browser_open,
       Load_session session_file, session_notice None]
      @ started 0 (Str (lit ''Alice'')) (lit ''https://x/a'')
      @ failure_lines (Str (lit ''Alice'')) timeout_error (lit ''https://x/feed'')
      @ [Screenshot (lit ''error_0.png''), Browser_close],
      1)"
proof -
  let ?C = "demo [lit ''https://x/a''] [lit ''error_0.png''] True"
  let ?df = "sheet [(0, alice_row), (2, carol_row)]"
  have h2: "rows ?df = [] @ (0, alice_row) # [(2, carol_row)]"
    by (simp add: rows_sheet)
  have h3: "start_browser ?C (0::nat) = (None, 0)"
    by (simp add: demo_start_browser)
  have h4: "load_session ?C session_file (0::nat) = (None, 0)"
    by (simp add: demo_load_session)
  have h5: "run_rows ?C (columns ?df) [] (0::nat) = (None, [], 0)"
    by simp
  have h6: "url_usable (row_get (columns ?df) alice_row (lit ''LinkedIn''))"
    by (simp add: columns_sheet alice_row_url usable_alice_url)
  have h7: "scrape ?C (strip (py_str (row_get (columns ?df) alice_row (lit ''LinkedIn'')))) (0::nat) =
              (Inl timeout_error, 1)"
    by (simp add: columns_sheet alice_row_url strip_alice_url demo_scrape)
  have h8: "screenshot ?C (error_png 0) (1::nat) = (Some closed_error, 1)"
    by (simp add: demo_screenshot error_png_0)
  show ?thesis
    using screenshot_error_ends_batch
      [OF load_two_rows h2 h3 h4 uncaught_None h5 h6 h7 timeout_is_exception h8,
       of "lit ''Alumni Shared.xlsx''"]
    by (simp add: rows_sheet columns_sheet alice_row_url alice_row_name strip_alice_url
        demo_page_url demo_close_browser error_png_0 numeral_2_eq_2)
qed

section \<open>Abort before the browser\<close>

lemma outcome_of_reading: "outcome_of (reading_line p) = None"
  by (simp add: reading_line_def lit_Cons outcome_of_other)

lemma outcome_of_found: "outcome_of (found_line n) = None"
  by (simp add: found_line_def lit_Cons outcome_of_other)

text \<open>
  C5: when the workbook does not exist, or reading it or selecting the candidates
  raises an \<^verbatim>\<open>Exception\<close>, \<open>main\<close> prints the error and returns. An error of the read that
  is no \<^verbatim>\<open>Exception\<close> (an interrupt) leaves \<open>main\<close> unreported. Either way the world is
  untouched: no browser was opened, nothing was scraped and no outcome was printed.
\<close>

theorem unreadable_input_aborts_before_browser:
  assumes "\<not> path_exists \<or> load_candidates excel = Inl e"
  shows "main C excel_path path_exists excel w =
           (if \<not> path_exists
            then (None, [Print (lit ''Error: Could not find '' @ excel_path)], w)
            else if is_exception e
            then (None,
                  [Print (lit ''Reading data from: '' @ excel_path),
                   Print (lit ''Error reading Excel file: '' @ exn_msg e)],
                  w)
            else (Some e, [Print (lit ''Reading data from: '' @ excel_path)], w))
         \<and> Browser_open \<notin> set (fst (snd (main C excel_path path_exists excel w)))
         \<and> scrape_calls (fst (snd (main C excel_path path_exists excel w))) = []
         \<and> outcomes (fst (snd (main C excel_path path_exists excel w))) = []"
proof (cases path_exists)
  case False
  then show ?thesis
    by (simp add: main_def reading_line_def scrape_calls_Cons scrape_calls_Nil outcomes_Cons
        outcomes_Nil lit_Cons outcome_of_other)
next
  case True
  with assms have "load_candidates excel = Inl e"
    by simp
  with True show ?thesis
    by (simp add: main_def reading_line_def scrape_calls_Cons scrape_calls_Nil outcomes_Cons
        outcomes_Nil lit_Cons outcome_of_other)
qed

theorem unreadable_input_aborts_before_browser_witness:
  "main (demo [] [] True) (lit ''Alumni Shared.xlsx'') False
     (Inr (sheet [(0, alice_row)])) (0::nat) =
     (None, [Print (lit ''Error: Could not find '' @ lit ''Alumni Shared.xlsx'')], 0)
   \<and> main (demo [] [] True) (lit ''Alumni Shared.xlsx'') True (Inl timeout_error) (0::nat) =
     (None,
      [Print (lit ''Reading data from: '' @ lit ''Alumni Shared.xlsx''),
       Print (lit ''Error reading Excel file: '' @ lit ''timed out'')], 0)
   \<and> main (demo [] [] True) (lit ''Alumni Shared.xlsx'') True
       (Inr \<lparr>columns = [lit ''LinkedIn''], rows = [(0, alice_row)]\<rparr>) (0::nat) =
     (None,
      [Print (lit ''Reading data from: '' @ lit ''Alumni Shared.xlsx''),
       Print (lit ''Error reading Excel file: '' @ 39 # lit ''Conclusion'' @ [39])], 0)
   \<and> main (demo [] [] True) (lit ''Alumni Shared.xlsx'') True (Inl cancelled_error) (0::nat) =
     (Some cancelled_error, [Print (lit ''Reading data from: '' @ lit ''Alumni Shared.xlsx'')], 0)"
proof -
  have a: "\<not> False \<or> load_candidates (Inr (sheet [(0, alice_row)])) = Inl timeout_error"
    by simp
  have b: "\<not> True \<or> load_candidates (Inl timeout_error) = Inl timeout_error"
    by (simp add: load_candidates_def)
  have "lit ''Conclusion'' \<noteq> lit ''LinkedIn''"
    by (simp add: lit_def)
  then have c: "\<not> True \<or> load_candidates (Inr \<lparr>columns = [lit ''LinkedIn''], rows = [(0, alice_row)]\<rparr>) =
                  Inl (key_error (lit ''Conclusion''))"
    by (simp add: load_candidates_def select_candidates_def)
  have d: "\<not> True \<or> load_candidates (Inl cancelled_error) = Inl cancelled_error"
    by (simp add: load_candidates_def)
  have m: "exn_msg timeout_error = lit ''timed out''"
    "exn_msg (key_error (lit ''Conclusion'')) = 39 # lit ''Conclusion'' @ [39]"
    "is_exception (key_error (lit ''Conclusion''))"
    by (simp_all add: timeout_error_def key_error_def)
  show ?thesis
    using unreadable_input_aborts_before_browser [OF a, of "demo [] [] True" "lit ''Alumni Shared.xlsx''" 0]
      unreadable_input_aborts_before_browser [OF b, of "demo [] [] True" "lit ''Alumni Shared.xlsx''" 0]
      unreadable_input_aborts_before_browser [OF c, of "demo [] [] True" "lit ''Alumni Shared.xlsx''" 0]
      unreadable_input_aborts_before_browser [OF d, of "demo [] [] True" "lit ''Alumni Shared.xlsx''" 0]
    by (simp add: timeout_is_exception cancelled_is_no_exception m)
qed

section \<open>The browser's scope\<close>











section \<open>The session\<close>

text \<open>
  C7: an \<^verbatim>\<open>Exception\<close> raised by \<^verbatim>\<open>browser.load_session\<close> goes no further than its handler.
  The warning line with the error's message is printed, the loop runs over all
  candidates in the world the failed load left, and the result of \<open>main\<close> is that of
  the loop.
\<close>

theorem session_failure_is_not_fatal:
  assumes "load_candidates excel = Inr candidates"
    and "rows candidates \<noteq> []"
    and "start_browser C w = (None, w0)"
    and "load_session C session_file w0 = (Some e, w1)"
    and "is_exception e"
  shows "main C excel_path True excel w =
     (case run_rows C (columns candidates) (rows candidates) w1 of
        (res, ev, w2) \<Rightarrow>
          (res,
           [reading_line excel_path, found_line (length (rows candidates)), Browser_open,
            Load_session session_file,
            Print (lit ''Warning: Could not load session ('' @ exn_msg e
                   @ lit ''). You might need to login manually.'')]
           @ ev @ [Browser_close] @ (if res = None then [done_line] else []),
           close_browser C w2))"
proof -
  obtain res ev w2 where run: "run_rows C (columns candidates) (rows candidates) w1 = (res, ev, w2)"
    by (cases "run_rows C (columns candidates) (rows candidates) w1")
  have caught: "\<not> uncaught (Some e)"
    using assms(5) by (simp add: uncaught_Some)
  show ?thesis
    using main_in_browser [OF assms(1-4) caught run, of excel_path]
    by (simp add: run session_notice_def session_warning_def)
qed

lemma load_one_row: "load_candidates (Inr (sheet [(0, alice_row)])) = Inr (sheet [(0, alice_row)])"
proof -
  have "str_lower (lit ''Yes'') = lit ''yes''"
    by (simp add: str_lower_def lower_cp_def lit_def)
  moreover have "alice_row (lit ''Conclusion'') = Str (lit ''Yes'')"
    by (simp add: alice_row_def sheet_row_def lit_def)
  moreover have "lit ''Conclusion'' \<in> set sheet_columns"
    by (simp add: sheet_columns_def)
  ultimately show ?thesis
    by (simp add: load_candidates_def select_candidates_def sheet_def conclusion_is_yes_def
        fillna_def)
qed

lemma demo_alice_succeeds:
  "run_rows (demo [] [] ok) sheet_columns [(0, alice_row)] (0::nat) =
     (None,
      started 0 (Str (lit ''Alice'')) (lit ''https://x/a'')
      @ [Sleep 15, Print (10003 # lit '' Success! Current URL: '' @ lit ''https://x/feed'')]
      @ report alice
      @ [Sleep_uniform 2.2 4.313],
      1)"
proof -
  have h6: "url_usable (row_get sheet_columns alice_row (lit ''LinkedIn''))"
    by (simp add: alice_row_url usable_alice_url)
  have h7: "scrape (demo [] [] ok) (strip (py_str (row_get sheet_columns alice_row (lit ''LinkedIn'')))) (0::nat) =
              (Inr alice, 1)"
    by (simp add: demo_scrape)
  show ?thesis
    using process_row_success [OF h6 h7, of 0]
    by (simp add: alice_row_url alice_row_name strip_alice_url demo_page_url)
qed

theorem session_failure_is_not_fatal_witness:
  "main (demo [] [] False) (lit ''Alumni Shared.xlsx'') True (Inr (sheet [(0, alice_row)])) (0::nat) =
     (None,
      [reading_line (lit ''Alumni Shared.xlsx''), found_line 1, Browser_open,
       Load_session session_file,
       Print (lit ''Warning: Could not load session ('' @ lit ''page closed''
              @ lit ''). You might need to login manually.'')]
      @ started 0 (Str (lit ''Alice'')) (lit ''https://x/a'')
      @ [Sleep 15, Print (10003 # lit '' Success! Current URL: '' @ lit ''https://x/feed'')]
      @ report alice
      @ [Sleep_uniform 2.2 4.313, Browser_close, done_line],
      1)"
proof -
  let ?C = "demo [] [] False"
  have h2: "rows (sheet [(0, alice_row)]) \<noteq> []"
    by (simp add: rows_sheet)
  have h3: "start_browser ?C (0::nat) = (None, 0)"
    by (simp add: demo_start_browser)
  have h4: "load_session ?C session_file (0::nat) = (Some closed_error, 0)"
    by (simp add: demo_load_session)
  have m: "exn_msg closed_error = lit ''page closed''"
    by (simp add: closed_error_def)
  show ?thesis
    using session_failure_is_not_fatal
      [OF load_one_row h2 h3 h4 closed_is_exception, of "lit ''Alumni Shared.xlsx''",
       unfolded rows_sheet columns_sheet demo_alice_succeeds m]
    by (simp add: demo_close_browser)
qed

section \<open>A URL of whitespace\<close>

text \<open>
  C9: a profile URL that is a non-empty string of whitespace only passes the check of
  line 70. The scraper is called with the empty string left by \<^verbatim>\<open>strip\<close>, once, and the
  row is never recorded as skipped: its outcome is that of the scrape (none when the
  scrape raised an error that the handler does not catch).
\<close>

theorem whitespace_url_is_scraped_as_empty:
  assumes "row_get cols r (lit ''LinkedIn'') = Str s"
    and "s \<noteq> []"
    and "\<forall>c \<in> set s. is_space c"
  shows "url_usable (row_get cols r (lit ''LinkedIn''))
         \<and> scrape_calls (fst (snd (process_row C cols (index, r) w))) = [[]]
         \<and> Skipped \<notin> set (outcomes (fst (snd (process_row C cols (index, r) w))))
         \<and> outcomes (fst (snd (process_row C cols (index, r) w))) =
             (case fst (scrape C [] w) of
                Inr p \<Rightarrow> [Success]
              | Inl e \<Rightarrow> if is_exception e then [Failed] else [])"
proof -
  have u: "url_usable (row_get cols r (lit ''LinkedIn''))"
    using assms(1,2) by (simp add: url_usable_def)
  have e: "strip (py_str (row_get cols r (lit ''LinkedIn''))) = []"
    using assms(1,3) by (simp add: strip_spaces)
  show ?thesis
    using u e by (simp add: scrape_calls_process_row outcomes_of_row split: sum.splits)
qed

theorem whitespace_url_is_scraped_as_empty_witness:
  "scrape_calls (fst (snd (process_row (demo [] [] True) sheet_columns
      (0, sheet_row (Str (lit ''Dewi'')) (Str (lit ''  '')) (Str (lit ''Yes''))) (0::nat)))) = [[]]
   \<and> outcomes (fst (snd (process_row (demo [] [] True) sheet_columns
      (0, sheet_row (Str (lit ''Dewi'')) (Str (lit ''  '')) (Str (lit ''Yes''))) (0::nat)))) = [Success]"
proof -
  have h1: "row_get sheet_columns (sheet_row (Str (lit ''Dewi'')) (Str (lit ''  '')) (Str (lit ''Yes'')))
              (lit ''LinkedIn'') = Str (lit ''  '')"
    by (rule sheet_row_url)
  have h2: "lit ''  '' \<noteq> []"
    by (simp add: lit_def)
  have h3: "\<forall>c \<in> set (lit ''  ''). is_space c"
    by (simp add: lit_def is_space_def)
  show ?thesis
    using whitespace_url_is_scraped_as_empty [OF h1 h2 h3, of "demo [] [] True" 0 0]
    by (simp add: demo_scrape)
qed

section \<open>The report of a success\<close>

lemma length_report:
  "length (report p) = 7 + min 2 (length (experiences p)) + min 2 (length (educations p))"
  by (simp add: report_def)

lemma length_about_text: "length (about_text p) \<le> 100"
  by (simp add: about_text_def lit_def split: option.splits)

text \<open>
  C8: when the scrape returns a profile, the body sleeps 15 seconds right after the
  call and only then prints the success line and the report: name, location, the first
  100 code points of the about text, and for experiences and for educations the count
  and the first two entries. The pacing delay follows and the body ends without error.
\<close>

theorem success_settles_then_reports:
  assumes "url_usable (row_get cols r (lit ''LinkedIn''))"
    and "scrape C (strip (py_str (row_get cols r (lit ''LinkedIn'')))) w = (Inr p, w1)"
  shows "process_row C cols (index, r) w =
     (None,
      started index (row_get cols r (lit ''Nama Mahasiswa''))
        (strip (py_str (row_get cols r (lit ''LinkedIn''))))
      @ [Sleep 15,
         Print (10003 # lit '' Success! Current URL: '' @ page_url C w1),
         Print dashes,
         Print (lit ''Person: '' @ fmt (name p)),
         Print (lit ''Location: '' @ fmt (location p) @ lit '' ''),
         Print (lit ''About: '' @ about_text p @ lit ''...''),
         Print (lit ''Work Experience ('' @ str_of_nat (length (experiences p)) @ lit '' positions):'')]
      @ map (\<lambda>exp. Print (lit ''  - '' @ fmt (position_title exp) @ lit '' at ''
                           @ fmt (institution_name exp)))
          (take 2 (experiences p))
      @ [Print (lit ''Education ('' @ str_of_nat (length (educations p)) @ lit '' schools):'')]
      @ map (\<lambda>edu. Print (lit ''  - '' @ fmt (edu_institution_name edu))) (take 2 (educations p))
      @ [Print dashes, Sleep_uniform 2.2 4.313],
      w1)
    \<and> length (about_text p) \<le> 100
    \<and> (\<forall>a. about p = Some a \<and> a \<noteq> [] \<longrightarrow> about_text p = take 100 a)"
proof -
  have "\<forall>a. about p = Some a \<and> a \<noteq> [] \<longrightarrow> about_text p = take 100 a"
    by (simp add: about_text_def)
  then show ?thesis
    using assms by (simp add: process_row_success report_def length_about_text)
qed

lemma about_alice: "about_text alice = replicate 100 97"
  by (simp add: about_text_def alice_def)

theorem success_settles_then_reports_witness:
  "process_row (demo [] [] True) sheet_columns (0, alice_row) (0::nat) =
     (None,
      started 0 (Str (lit ''Alice'')) (lit ''https://x/a'')
      @ [Sleep 15,
         Print (10003 # lit '' Success! Current URL: '' @ lit ''https://x/feed''),
         Print dashes,
         Print (lit ''Person: '' @ lit ''Alice''),
         Print (lit ''Location: '' @ lit ''None'' @ lit '' ''),
         Print (lit ''About: '' @ replicate 100 97 @ lit ''...''),
         Print (lit ''Work Experience ('' @ lit ''3'' @ lit '' positions):''),
         Print (lit ''  - '' @ lit ''Engineer'' @ lit '' at '' @ lit ''Acme''),
         Print (lit ''  - '' @ lit ''Intern'' @ lit '' at '' @ lit ''None''),
         Print (lit ''Education ('' @ lit ''1'' @ lit '' schools):''),
         Print (lit ''  - '' @ lit ''ITB''),
         Print dashes, Sleep_uniform 2.2 4.313],
      1)"
proof -
  have h6: "url_usable (row_get sheet_columns alice_row (lit ''LinkedIn''))"
    by (simp add: alice_row_url usable_alice_url)
  have h7: "scrape (demo [] [] True) (strip (py_str (row_get sheet_columns alice_row (lit ''LinkedIn'')))) (0::nat) =
              (Inr alice, 1)"
    by (simp add: demo_scrape)
  have "str_of_nat 3 = lit ''3''" and "str_of_nat 1 = lit ''1''"
    by (simp_all add: str_of_nat.simps lit_def)
  then have n: "str_of_nat (Suc (Suc (Suc 0))) = lit ''3''" "str_of_nat (Suc 0) = lit ''1''"
    by (simp_all add: numeral_3_eq_3)
  have f: "name alice = Some (lit ''Alice'')" "location alice = None"
    "experiences alice =
        [\<lparr>position_title = Some (lit ''Engineer''), institution_name = Some (lit ''Acme'')\<rparr>,
         \<lparr>position_title = Some (lit ''Intern''), institution_name = None\<rparr>,
         \<lparr>position_title = None, institution_name = Some (lit ''Lab'')\<rparr>]"
    "educations alice = [\<lparr>edu_institution_name = Some (lit ''ITB'')\<rparr>]"
    by (simp_all add: alice_def)
  show ?thesis
    using success_settles_then_reports [OF h6 h7, of 0]
    by (simp add: alice_row_url alice_row_name strip_alice_url demo_page_url about_alice f n
        fmt_def)
qed

end
